theory Spec2Isabelle
  imports Complex_Main "HOL-Library.Char_ord" "HOL-Library.List_Lexorder"
begin

section \<open>Heart Disease Dashboard: the table, its loader and the sidebar filter\<close>

text \<open>
  The program is the script \<^verbatim>\<open>app.py\<close>: it reads a table of patient records, adds
  the column \<^verbatim>\<open>Age Group\<close>, filters the table by five sidebar selections and computes six
  summary tables with pandas, one per chart. This theory embeds the data frame as a list of
  records (one record per row, in row order), every pandas call of the script as a list
  function, a raised \<^verbatim>\<open>ValueError\<close> as the left summand of a sum type, and a
  \<^verbatim>\<open>float64\<close> result as an exact real number, infinity or \<^verbatim>\<open>NaN\<close>. The plotting
  calls are not modelled.
\<close>

subsection \<open>Rows\<close>

text \<open>
  The columns of \<^verbatim>\<open>heart_cleaned_fe.csv\<close> that the script reads. \<open>sex_male\<close> is the
  column \<^verbatim>\<open>Sex: Male\<close> and \<open>angina_yes\<close> the column
  \<^verbatim>\<open>Exercise-Induced Angina: Yes\<close>.
\<close>

record patient =
  age :: int
  sex_male :: int
  chest_pain_type :: string
  resting_ecg :: string
  angina_yes :: int
  st_slope :: string
  resting_bp :: int
  cholesterol :: int
  max_hr :: int
  oldpeak :: real
  fasting_bs :: int
  heart_disease :: int

text \<open>
  \<^verbatim>\<open>pd.cut\<close> returns a categorical column: every entry is one of the five categories or
  missing. The categories are the constructors below, in category order; \<open>label_of\<close> gives
  the string of \<^verbatim>\<open>labels\<close> that names each.
\<close>

datatype age_group = G30_40 | G41_50 | G51_60 | G61_70 | G71_plus

definition categories :: "age_group list" where
  "categories = [G30_40, G41_50, G51_60, G61_70, G71_plus]"

fun label_of :: "age_group \<Rightarrow> string" where
  "label_of G30_40 = ''30-40''"
| "label_of G41_50 = ''41-50''"
| "label_of G51_60 = ''51-60''"
| "label_of G61_70 = ''61-70''"
| "label_of G71_plus = ''71+''"

definition labels :: "string list" where
  "labels = map label_of categories"

text \<open>A row of the augmented table: the patient's columns and \<^verbatim>\<open>Age Group\<close>.\<close>

record row = patient +
  Age_Group :: "age_group option"

datatype error = ValueError

subsection \<open>load_data\<close>

text \<open>
  \<^verbatim>\<open>bins.searchsorted(x, side='left')\<close>: the number of leading edges below \<open>a\<close>, which on
  increasing edges is the position of the first edge that is at least \<open>a\<close>.
\<close>

definition searchsorted_left :: "int list \<Rightarrow> int \<Rightarrow> nat" where
  "searchsorted_left bins a = length (takeWhile (\<lambda>b. b < a) bins)"

text \<open>
  One entry of \<^verbatim>\<open>pd.cut(x, bins, labels=labels)\<close> with the default \<^verbatim>\<open>right=True\<close>: the
  entry is in interval \<open>i\<close> when \<open>bins[i-1] < a \<le> bins[i]\<close>, and is missing when it lies at
  or below the first edge or above the last one. Interval \<open>i\<close> gets the \<open>i\<close>-th category,
  which the \<open>i\<close>-th label names.
\<close>

definition cut1 :: "int list \<Rightarrow> int \<Rightarrow> age_group option" where
  "cut1 bins a =
     (let ids = searchsorted_left bins a
      in if ids = 0 \<or> ids = length bins then None else Some (categories ! (ids - 1)))"

text \<open>
  \<^verbatim>\<open>pd.cut\<close> on a list of edges raises \<^verbatim>\<open>ValueError\<close> when the edges do not increase
  (\<^verbatim>\<open>bins must increase monotonically\<close>), when two edges are equal
  (\<^verbatim>\<open>Bin edges must be unique\<close>), and when the number of labels is not one less than the
  number of edges.
\<close>

definition cut :: "int list \<Rightarrow> int list \<Rightarrow> string list \<Rightarrow> error + age_group option list" where
  "cut x bins lbls =
     (if \<not> sorted bins then Inl ValueError
      else if \<not> distinct bins \<and> length bins \<noteq> 2 then Inl ValueError
      else if length lbls \<noteq> length bins - 1 then Inl ValueError
      else Inr (map (cut1 bins) x))"

text \<open>
  \<^verbatim>\<open>load_data\<close>. The argument is the table \<^verbatim>\<open>pd.read_csv\<close> returned. On a table with no
  rows \<^verbatim>\<open>df.age.max()\<close> is \<^verbatim>\<open>NaN\<close>, the edges are then not increasing, and the cut
  raises.
\<close>

definition with_age_group :: "patient \<Rightarrow> age_group option \<Rightarrow> row" where
  "with_age_group p g = patient.extend p (row.fields g)"

definition load_data :: "patient list \<Rightarrow> error + row list" where
  "load_data df =
     (if df = [] then Inl ValueError
      else
        let bins = [29, 40, 50, 60, 70, Max (set (map age df))]
        in case cut (map age df) bins labels of
             Inl e \<Rightarrow> Inl e
           | Inr gs \<Rightarrow> Inr (map2 with_age_group df gs))"

subsection \<open>The sidebar filter\<close>

text \<open>
  The five sidebar widgets: the chest-pain multiselect \<open>cp\<close>, the ECG selectbox \<open>ecg\<close>
  (\<^verbatim>\<open>'All'\<close> or a value of the column), the age-group multiselect \<open>ag\<close> (a list of
  labels), the angina checkbox \<open>ang\<close> and the sex selectbox \<open>sex\<close>.
\<close>

record filter_criteria =
  cp :: "string list"
  ecg :: string
  ag :: "string list"
  ang :: bool
  sex :: string

text \<open>
  \<^verbatim>\<open>d['Age Group'].isin(ag)\<close>: a missing entry is in no list of labels.
\<close>

definition age_group_isin :: "string list \<Rightarrow> row \<Rightarrow> bool" where
  "age_group_isin sel r =
     (case Age_Group r of None \<Rightarrow> False | Some g \<Rightarrow> label_of g \<in> set sel)"

text \<open>Lines 50 to 56 of the script, one boolean-mask selection after the other.\<close>

definition filter_rows :: "filter_criteria \<Rightarrow> row list \<Rightarrow> row list" where
  "filter_rows c df =
     (let d1 = filter (\<lambda>r. chest_pain_type r \<in> set (cp c)) df;
          d2 = (if ecg c \<noteq> ''All'' then filter (\<lambda>r. resting_ecg r = ecg c) d1 else d1);
          d3 = filter (age_group_isin (ag c)) d2;
          d4 = (if ang c then filter (\<lambda>r. angina_yes r = 1) d3 else d3)
      in if sex c \<noteq> ''All''
         then (let val = (if sex c = ''Male'' then 1 else 0)
               in filter (\<lambda>r. sex_male r = val) d4)
         else d4)"

section \<open>The six aggregations\<close>

subsection \<open>Floats, means and group keys\<close>

text \<open>
  A \<^verbatim>\<open>float64\<close> result: a number, positive infinity or \<^verbatim>\<open>NaN\<close>. The numbers are
  exact reals: rounding is not modelled.
\<close>

datatype float64 = Num real | Inf | NaN

fun scale :: "real \<Rightarrow> float64 \<Rightarrow> float64" where
  "scale k (Num x) = Num (x * k)"
| "scale k Inf = (if k = 0 then NaN else Inf)"
| "scale k NaN = NaN"

fun fabs :: "float64 \<Rightarrow> float64" where
  "fabs (Num x) = Num \<bar>x\<bar>"
| "fabs Inf = Inf"
| "fabs NaN = NaN"

text \<open>
  Division of two integer columns holding counts: numpy gives \<^verbatim>\<open>NaN\<close> for \<open>0/0\<close> and
  \<^verbatim>\<open>inf\<close> for a positive count over zero.
\<close>

definition truediv :: "nat \<Rightarrow> nat \<Rightarrow> float64" where
  "truediv a b = (if b = 0 then (if a = 0 then NaN else Inf) else Num (real a / real b))"

text \<open>The mean of an integer column: \<^verbatim>\<open>NaN\<close> on no rows.\<close>

definition mean :: "int list \<Rightarrow> float64" where
  "mean xs = (if xs = [] then NaN else Num (real_of_int (sum_list xs) / real (length xs)))"

text \<open>The distinct values of a key column in sorted order (\<^verbatim>\<open>sort=True\<close>).\<close>

definition uniques :: "'a::linorder list \<Rightarrow> 'a list" where
  "uniques xs = sort (remdups xs)"

text \<open>
  The rows of a group of \<^verbatim>\<open>d.groupby(['Age Group', col])\<close>. Rows whose age group is
  missing are in no group (\<^verbatim>\<open>dropna=True\<close>).
\<close>

definition rows_of :: "(row \<Rightarrow> string) \<Rightarrow> row list \<Rightarrow> age_group \<times> string \<Rightarrow> row list" where
  "rows_of col d k = filter (\<lambda>r. Age_Group r = Some (fst k) \<and> col r = snd k) d"

text \<open>
  The keys of \<^verbatim>\<open>d.groupby(['Age Group', col])\<close>, in result order. The script does not
  pass \<^verbatim>\<open>observed\<close>, so the library's default decides: with \<open>observed = False\<close> (the
  default before pandas 3) a categorical key contributes every category and the result
  has the whole product of the categories and the values of \<open>col\<close> in \<open>d\<close>; with
  \<open>observed = True\<close> (the default since) only the combinations that have rows. The default
  is a parameter of every aggregation that groups by \<^verbatim>\<open>Age Group\<close>.
\<close>

definition group_keys :: "bool \<Rightarrow> (row \<Rightarrow> string) \<Rightarrow> row list \<Rightarrow> (age_group \<times> string) list" where
  "group_keys observed col d =
     filter (\<lambda>k. if observed then rows_of col d k \<noteq> [] else True)
       (List.product categories (uniques (map col d)))"

subsection \<open>(1) Chest pain share by age group\<close>

text \<open>
  \<^verbatim>\<open>d.groupby(['Age Group','chest_pain_type']).size().reset_index(name='count')\<close>:
  columns \<^verbatim>\<open>Age Group\<close>, \<^verbatim>\<open>chest_pain_type\<close>, \<^verbatim>\<open>count\<close>.
\<close>

definition mos_count :: "bool \<Rightarrow> row list \<Rightarrow> (age_group \<times> string \<times> nat) list" where
  "mos_count observed d =
     map (\<lambda>k. (fst k, snd k, length (rows_of chest_pain_type d k)))
       (group_keys observed chest_pain_type d)"

text \<open>
  \<^verbatim>\<open>mos.groupby('Age Group')['count'].transform('sum')\<close> at a row of \<open>m\<close> with age
  group \<open>g\<close>: the sum of \<^verbatim>\<open>count\<close> over the rows of \<open>m\<close> with that age group.
\<close>

definition transform_sum :: "(age_group \<times> string \<times> nat) list \<Rightarrow> age_group \<Rightarrow> nat" where
  "transform_sum m g = sum_list (map (\<lambda>t. snd (snd t)) (filter (\<lambda>t. fst t = g) m))"

text \<open>\<^verbatim>\<open>mos\<close> with its fourth column \<^verbatim>\<open>pct\<close>.\<close>

definition mos :: "bool \<Rightarrow> row list \<Rightarrow> (age_group \<times> string \<times> nat \<times> float64) list" where
  "mos observed d =
     (let m = mos_count observed d
      in map (\<lambda>t. (fst t, fst (snd t), snd (snd t),
                    truediv (snd (snd t)) (transform_sum m (fst t)))) m)"

subsection \<open>(2) ECG count and disease rate\<close>

text \<open>
  \<^verbatim>\<open>d.resting_ecg.value_counts()\<close>: the distinct values in order of first appearance,
  each with its number of rows, sorted by descending count (ties keep their order).
\<close>

definition value_counts :: "string list \<Rightarrow> (string \<times> nat) list" where
  "value_counts xs =
     sort_key (\<lambda>t. - int (snd t)) (map (\<lambda>v. (v, count_list xs v)) (rev (remdups (rev xs))))"

definition ct :: "row list \<Rightarrow> (string \<times> nat) list" where
  "ct d = value_counts (map resting_ecg d)"

text \<open>
  \<^verbatim>\<open>rt\<close>: the mean of \<^verbatim>\<open>heart_disease\<close> per value of \<^verbatim>\<open>resting_ecg\<close>, times 100.
\<close>

definition rt :: "row list \<Rightarrow> (string \<times> float64) list" where
  "rt d =
     map (\<lambda>v. (v, scale 100 (mean (map heart_disease (filter (\<lambda>r. resting_ecg r = v) d)))))
       (uniques (map resting_ecg d))"

text \<open>
  \<^verbatim>\<open>ct.merge(rt, left_on='ecg', right_on='resting_ecg')\<close>, an inner join in the order of
  \<^verbatim>\<open>ct\<close>: columns \<^verbatim>\<open>ecg\<close>, \<^verbatim>\<open>count\<close>, \<^verbatim>\<open>resting_ecg\<close>, \<^verbatim>\<open>rate\<close>.
\<close>

definition df_e :: "row list \<Rightarrow> (string \<times> nat \<times> string \<times> float64) list" where
  "df_e d =
     concat (map (\<lambda>l. map (\<lambda>r. (fst l, snd l, fst r, snd r))
                          (filter (\<lambda>r. fst r = fst l) (rt d))) (ct d))"

subsection \<open>(3) Age group by ST slope heat map\<close>

text \<open>
  \<^verbatim>\<open>d.groupby(['Age Group','st_slope'])['heart_disease'].mean().reset_index()\<close>.
\<close>

definition heat_long :: "bool \<Rightarrow> row list \<Rightarrow> (age_group \<times> string \<times> float64) list" where
  "heat_long observed d =
     map (\<lambda>k. (fst k, snd k, mean (map heart_disease (rows_of st_slope d k))))
       (group_keys observed st_slope d)"

text \<open>
  A two-dimensional table: the row labels, the column labels and the rows of values.
\<close>

record pivot_table =
  pt_index :: "age_group list"
  pt_columns :: "string list"
  pt_values :: "float64 list list"

text \<open>
  \<^verbatim>\<open>DataFrame.pivot(index, columns, values)\<close>: raises \<^verbatim>\<open>ValueError\<close> when an
  (index, column) pair occurs twice. The row labels are the age groups that occur, in
  category order, the column labels the sorted column values, and a pair that does not
  occur gets \<^verbatim>\<open>NaN\<close>.
\<close>

definition pivot :: "(age_group \<times> string \<times> float64) list \<Rightarrow> error + pivot_table" where
  "pivot t =
     (if \<not> distinct (map (\<lambda>e. (fst e, fst (snd e))) t) then Inl ValueError
      else
        let idx = filter (\<lambda>g. g \<in> set (map fst t)) categories;
            cls = uniques (map (\<lambda>e. fst (snd e)) t);
            look = map_of (map (\<lambda>e. ((fst e, fst (snd e)), snd (snd e))) t)
        in Inr \<lparr>pt_index = idx, pt_columns = cls,
                pt_values = map (\<lambda>g. map (\<lambda>s. case look (g, s) of None \<Rightarrow> NaN | Some v \<Rightarrow> v) cls) idx\<rparr>)"

definition times100 :: "pivot_table \<Rightarrow> pivot_table" where
  "times100 t = t\<lparr>pt_values := map (map (scale 100)) (pt_values t)\<rparr>"

definition heat :: "bool \<Rightarrow> row list \<Rightarrow> error + pivot_table" where
  "heat observed d =
     (case pivot (heat_long observed d) of Inl e \<Rightarrow> Inl e | Inr t \<Rightarrow> Inr (times100 t))"

text \<open>
  Reading the table at a row label and a column label (\<^verbatim>\<open>heat.loc[g, s]\<close>): \<open>None\<close> when
  the table has no such row or no such column.
\<close>

fun position :: "'a \<Rightarrow> 'a list \<Rightarrow> nat" where
  "position x [] = 0"
| "position x (y # ys) = (if x = y then 0 else Suc (position x ys))"

definition cell :: "pivot_table \<Rightarrow> age_group \<Rightarrow> string \<Rightarrow> float64 option" where
  "cell t g s =
     (if g \<in> set (pt_index t) \<and> s \<in> set (pt_columns t)
      then Some (pt_values t ! position g (pt_index t) ! position s (pt_columns t))
      else None)"

subsection \<open>(4) Disease rate by sex and chest pain type\<close>

text \<open>\<^verbatim>\<open>df4['Sex: Male'].map({0:'Female',1:'Male'})\<close>: any other flag maps to missing.\<close>

definition sex_label :: "int \<Rightarrow> string option" where
  "sex_label s = (if s = 0 then Some ''Female'' else if s = 1 then Some ''Male'' else None)"

text \<open>
  \<^verbatim>\<open>df4\<close>: columns \<^verbatim>\<open>Sex: Male\<close>, \<^verbatim>\<open>chest_pain_type\<close>, \<^verbatim>\<open>count\<close>, \<^verbatim>\<open>rate\<close>
  (times 100) and \<^verbatim>\<open>Sex\<close>. Neither key is categorical: only the pairs that have rows
  appear.
\<close>

definition df4_rows :: "row list \<Rightarrow> int \<times> string \<Rightarrow> row list" where
  "df4_rows d k = filter (\<lambda>r. sex_male r = fst k \<and> chest_pain_type r = snd k) d"

definition df4 :: "row list \<Rightarrow> (int \<times> string \<times> nat \<times> float64 \<times> string option) list" where
  "df4 d =
     map (\<lambda>k. (fst k, snd k, length (df4_rows d k),
               scale 100 (mean (map heart_disease (df4_rows d k))), sex_label (fst k)))
       (filter (\<lambda>k. df4_rows d k \<noteq> [])
          (List.product (uniques (map sex_male d)) (uniques (map chest_pain_type d))))"

subsection \<open>(5) Absolute correlation with heart disease\<close>

text \<open>
  The Pearson correlation of two columns as \<^verbatim>\<open>DataFrame.corr()\<close> computes it
  (\<^verbatim>\<open>min_periods=1\<close>): missing on no rows and when the divisor is zero.
\<close>

definition pearson :: "real list \<Rightarrow> real list \<Rightarrow> float64" where
  "pearson xs ys =
     (let nobs = length xs
      in if nobs < 1 then NaN
         else
           let meanx = sum_list xs / real nobs;
               meany = sum_list ys / real nobs;
               ssqdm_x = sum_list (map (\<lambda>x. (x - meanx)\<^sup>2) xs);
               ssqdm_y = sum_list (map (\<lambda>y. (y - meany)\<^sup>2) ys);
               covxy = sum_list (map (\<lambda>p. (fst p - meanx) * (snd p - meany)) (zip xs ys));
               divisor = sqrt (ssqdm_x * ssqdm_y)
           in if divisor \<noteq> 0 then Num (covxy / divisor) else NaN)"

text \<open>\<^verbatim>\<open>cols\<close>, each name with the column it selects, as floats.\<close>

definition cols :: "(string \<times> (row \<Rightarrow> real)) list" where
  "cols =
     [(''age'', \<lambda>r. real_of_int (age r)),
      (''resting_bp'', \<lambda>r. real_of_int (resting_bp r)),
      (''cholesterol'', \<lambda>r. real_of_int (cholesterol r)),
      (''max_hr'', \<lambda>r. real_of_int (max_hr r)),
      (''oldpeak'', oldpeak),
      (''fasting_bs'', \<lambda>r. real_of_int (fasting_bs r))]"

text \<open>
  \<^verbatim>\<open>t[cols+['heart_disease']].corr()['heart_disease'].abs().drop('heart_disease')
  .reset_index(name='corr')\<close>: columns \<^verbatim>\<open>index\<close> and \<^verbatim>\<open>corr\<close>.
\<close>

definition corr_abs :: "row list \<Rightarrow> (string \<times> float64) list" where
  "corr_abs t =
     (let hd_col = (\<lambda>r. real_of_int (heart_disease r));
          sel = cols @ [(''heart_disease'', hd_col)];
          corr_hd = map (\<lambda>c. (fst c, pearson (map (snd c) t) (map hd_col t))) sel;
          a = map (\<lambda>e. (fst e, fabs (snd e))) corr_hd
      in filter (\<lambda>e. fst e \<noteq> ''heart_disease'') a)"

definition nunique :: "int list \<Rightarrow> nat" where
  "nunique xs = length (remdups xs)"

text \<open>
  What the fifth chart is drawn from: the two vectors \<^verbatim>\<open>cm\<close> and \<^verbatim>\<open>cf\<close> of the
  two-trace radar chart, or the vector \<^verbatim>\<open>c0\<close> of the polar bar chart.
\<close>

datatype fig5_data =
  Two_Traces "(string \<times> float64) list" "(string \<times> float64) list"
| One_Bar "(string \<times> float64) list"

definition fig5 :: "row list \<Rightarrow> fig5_data" where
  "fig5 d =
     (if nunique (map sex_male d) > 1
      then Two_Traces (corr_abs (filter (\<lambda>r. sex_male r = 1) d))
                      (corr_abs (filter (\<lambda>r. sex_male r = 0) d))
      else One_Bar (corr_abs d))"

fun vectors :: "fig5_data \<Rightarrow> (string \<times> float64) list list" where
  "vectors (Two_Traces cm cf) = [cm, cf]"
| "vectors (One_Bar c0) = [c0]"

subsection \<open>(6) Disease rate trend by age group and chest pain type\<close>

text \<open>
  \<^verbatim>\<open>ln\<close>: columns \<^verbatim>\<open>Age Group\<close>, \<^verbatim>\<open>chest_pain_type\<close>, \<^verbatim>\<open>rate\<close>.
\<close>

definition ln_rate :: "bool \<Rightarrow> row list \<Rightarrow> (age_group \<times> string \<times> float64) list" where
  "ln_rate observed d =
     map (\<lambda>k. (fst k, snd k, mean (map heart_disease (rows_of chest_pain_type d k))))
       (group_keys observed chest_pain_type d)"

subsection \<open>The five bins as the specification words them\<close>

text \<open>
  The specification's bins \<open>[30,40]\<close>, \<open>[41,50]\<close>, \<open>[51,60]\<close>, \<open>[61,70]\<close> and
  \<open>[71, max]\<close>, written from its words and compared with \<open>cut1\<close> below; \<open>mx\<close> is the
  largest age of the table.
\<close>

definition in_spec_bin :: "int \<Rightarrow> age_group \<Rightarrow> int \<Rightarrow> bool" where
  "in_spec_bin mx g a =
     (case g of
        G30_40 \<Rightarrow> 30 \<le> a \<and> a \<le> 40
      | G41_50 \<Rightarrow> 41 \<le> a \<and> a \<le> 50
      | G51_60 \<Rightarrow> 51 \<le> a \<and> a \<le> 60
      | G61_70 \<Rightarrow> 61 \<le> a \<and> a \<le> 70
      | G71_plus \<Rightarrow> 71 \<le> a \<and> a \<le> mx)"

subsection \<open>Example tables\<close>

definition mk_patient ::
  "int \<Rightarrow> int \<Rightarrow> string \<Rightarrow> string \<Rightarrow> int \<Rightarrow> string \<Rightarrow> int \<Rightarrow> int \<Rightarrow> patient" where
  "mk_patient a s c e x sl fb h =
     \<lparr>age = a, sex_male = s, chest_pain_type = c, resting_ecg = e, angina_yes = x,
      st_slope = sl, resting_bp = 100 + a, cholesterol = 200, max_hr = 220 - a,
      oldpeak = 1, fasting_bs = fb, heart_disease = h\<rparr>"

definition mk_row ::
  "int \<Rightarrow> int \<Rightarrow> string \<Rightarrow> string \<Rightarrow> int \<Rightarrow> string \<Rightarrow> int \<Rightarrow> int \<Rightarrow> age_group option \<Rightarrow> row" where
  "mk_row a s c e x sl fb h g = with_age_group (mk_patient a s c e x sl fb h) g"

definition example_csv :: "patient list" where
  "example_csv =
     [mk_patient 28 1 ''ATA'' ''Normal'' 0 ''Up'' 0 0,
      mk_patient 45 1 ''ATA'' ''Normal'' 0 ''Up'' 0 0,
      mk_patient 47 0 ''ASY'' ''ST'' 1 ''Flat'' 1 1,
      mk_patient 62 1 ''ASY'' ''Normal'' 1 ''Flat'' 0 1,
      mk_patient 77 0 ''NAP'' ''LVH'' 0 ''Down'' 0 1]"

definition example_df :: "row list" where
  "example_df =
     [mk_row 28 1 ''ATA'' ''Normal'' 0 ''Up'' 0 0 None,
      mk_row 45 1 ''ATA'' ''Normal'' 0 ''Up'' 0 0 (Some G41_50),
      mk_row 47 0 ''ASY'' ''ST'' 1 ''Flat'' 1 1 (Some G41_50),
      mk_row 62 1 ''ASY'' ''Normal'' 1 ''Flat'' 0 1 (Some G61_70),
      mk_row 77 0 ''NAP'' ''LVH'' 0 ''Down'' 0 1 (Some G71_plus)]"

text \<open>
  The rows of \<open>example_df\<close> that pass the filter with everything selected, and those that
  pass it with \<^verbatim>\<open>'Male'\<close> selected as well.
\<close>

definition example_d :: "row list" where
  "example_d =
     [mk_row 45 1 ''ATA'' ''Normal'' 0 ''Up'' 0 0 (Some G41_50),
      mk_row 47 0 ''ASY'' ''ST'' 1 ''Flat'' 1 1 (Some G41_50),
      mk_row 62 1 ''ASY'' ''Normal'' 1 ''Flat'' 0 1 (Some G61_70),
      mk_row 77 0 ''NAP'' ''LVH'' 0 ''Down'' 0 1 (Some G71_plus)]"


text \<open>The sidebar as it starts: everything selected, no box ticked.\<close>

definition all_selected :: filter_criteria where
  "all_selected =
     \<lparr>cp = [''ATA'', ''ASY'', ''NAP''], ecg = ''All'', ag = labels, ang = False, sex = ''All''\<rparr>"

section \<open>The loader and the filter: properties\<close>

lemma with_age_group_sel [simp]:
  "age (with_age_group p g) = age p" "Age_Group (with_age_group p g) = g"
  by (simp_all add: with_age_group_def patient.defs row.defs)

lemma map2_map_same: "map2 f xs (map g xs) = map (\<lambda>x. f x (g x)) xs"
  by (induction xs) simp_all

lemma cut1_edges:
  assumes "70 < m"
  shows "cut1 [29, 40, 50, 60, 70, m] a =
     (if a \<le> 29 then None
      else if a \<le> 40 then Some G30_40
      else if a \<le> 50 then Some G41_50
      else if a \<le> 60 then Some G51_60
      else if a \<le> 70 then Some G61_70
      else if a \<le> m then Some G71_plus
      else None)"
  using assms by (simp add: cut1_def searchsorted_left_def categories_def)

lemma load_data_Inr:
  assumes "load_data raw = Inr df"
  shows "raw \<noteq> []" and "70 < Max (set (map age raw))"
    and "df = map (\<lambda>p. with_age_group p (cut1 [29, 40, 50, 60, 70, Max (set (map age raw))] (age p))) raw"
proof -
  let ?m = "Max (set (map age raw))"
  show ne: "raw \<noteq> []" using assms by (auto simp: load_data_def)
  from assms ne obtain gs where gs: "cut (map age raw) [29, 40, 50, 60, 70, ?m] labels = Inr gs"
    and df: "df = map2 with_age_group raw gs"
    by (auto simp: load_data_def Let_def split: sum.splits)
  from gs show "70 < ?m"
    by (auto simp: cut_def split: if_splits)
  from gs have "gs = map (cut1 [29, 40, 50, 60, 70, ?m]) (map age raw)"
    by (auto simp: cut_def split: if_splits)
  with df show "df = map (\<lambda>p. with_age_group p (cut1 [29, 40, 50, 60, 70, ?m] (age p))) raw"
    by (simp add: map2_map_same)
qed

lemma load_data_row:
  assumes "load_data raw = Inr df" and "r \<in> set df"
  shows "70 < Max (set (map age raw))"
    and "age r \<le> Max (set (map age raw))"
    and "Age_Group r = cut1 [29, 40, 50, 60, 70, Max (set (map age raw))] (age r)"
proof -
  let ?m = "Max (set (map age raw))"
  note L = load_data_Inr [OF assms(1)]
  show "70 < ?m" by (rule L(2))
  from assms(2) L(3) obtain p where p: "p \<in> set raw"
    and r: "r = with_age_group p (cut1 [29, 40, 50, 60, 70, ?m] (age p))"
    by auto
  from p have "age p \<le> ?m" by simp
  with r show "age r \<le> ?m" by simp
  from r show "Age_Group r = cut1 [29, 40, 50, 60, 70, ?m] (age r)" by simp
qed

lemma filter_rows_eq_filter:
  "filter_rows c df =
     filter (\<lambda>r. chest_pain_type r \<in> set (cp c)
                \<and> (ecg c = ''All'' \<or> resting_ecg r = ecg c)
                \<and> age_group_isin (ag c) r
                \<and> (\<not> ang c \<or> angina_yes r = 1)
                \<and> (sex c = ''All'' \<or> sex_male r = (if sex c = ''Male'' then 1 else 0))) df"
  unfolding filter_rows_def Let_def
  by (auto intro: filter_cong)

lemma example_loads: "load_data example_csv = Inr example_df"
  by (simp add: load_data_def example_csv_def example_df_def mk_row_def mk_patient_def
      cut_def cut1_def searchsorted_left_def categories_def labels_def)

lemma mk_row_sel [simp]:
  "age (mk_row a s c e x sl fb h g) = a"
  "sex_male (mk_row a s c e x sl fb h g) = s"
  "chest_pain_type (mk_row a s c e x sl fb h g) = c"
  "resting_ecg (mk_row a s c e x sl fb h g) = e"
  "angina_yes (mk_row a s c e x sl fb h g) = x"
  "st_slope (mk_row a s c e x sl fb h g) = sl"
  "fasting_bs (mk_row a s c e x sl fb h g) = fb"
  "heart_disease (mk_row a s c e x sl fb h g) = h"
  "Age_Group (mk_row a s c e x sl fb h g) = g"
  "resting_bp (mk_row a s c e x sl fb h g) = 100 + a"
  "cholesterol (mk_row a s c e x sl fb h g) = 200"
  "max_hr (mk_row a s c e x sl fb h g) = 220 - a"
  "oldpeak (mk_row a s c e x sl fb h g) = 1"
  by (simp_all add: mk_row_def mk_patient_def with_age_group_def patient.defs row.defs)

lemma mk_row_eq_iff [simp]:
  "mk_row a s c e x sl fb h g = mk_row a' s' c' e' x' sl' fb' h' g' \<longleftrightarrow>
     a = a' \<and> s = s' \<and> c = c' \<and> e = e' \<and> x = x' \<and> sl = sl' \<and> fb = fb' \<and> h = h' \<and> g = g'"
  by (auto simp: mk_row_def mk_patient_def with_age_group_def patient.defs row.defs)

text \<open>
  C1. The filtered table holds rows of the table only, and a row of the table is in it
  exactly when it passes all five tests: its chest-pain type is selected; its resting ECG
  is the selected value, or the selection is \<^verbatim>\<open>'All'\<close>; it has an age group whose label
  is selected; its angina flag is 1 when the box is ticked; its sex flag is the value
  the selection stands for (1 for \<^verbatim>\<open>'Male'\<close>, else 0), or the selection is \<^verbatim>\<open>'All'\<close>.
\<close>

theorem filter_rows_five_predicates:
  "set (filter_rows c df) \<subseteq> set df \<and>
   (r \<in> set (filter_rows c df) \<longleftrightarrow>
      r \<in> set df
      \<and> chest_pain_type r \<in> set (cp c)
      \<and> (resting_ecg r = ecg c \<or> ecg c = ''All'')
      \<and> (\<exists>g. Age_Group r = Some g \<and> label_of g \<in> set (ag c))
      \<and> (if ang c then angina_yes r = 1 else True)
      \<and> (sex_male r = (if sex c = ''Male'' then 1 else 0) \<or> sex c = ''All''))"
  by (auto simp: filter_rows_eq_filter age_group_isin_def split: option.splits)

theorem filter_rows_five_predicates_witness:
  "set (filter_rows (all_selected\<lparr>ecg := ''Normal'', ang := True, sex := ''Male''\<rparr>) example_df)
     \<subseteq> set example_df
   \<and> mk_row 62 1 ''ASY'' ''Normal'' 1 ''Flat'' 0 1 (Some G61_70)
       \<in> set (filter_rows (all_selected\<lparr>ecg := ''Normal'', ang := True, sex := ''Male''\<rparr>) example_df)
   \<and> mk_row 47 0 ''ASY'' ''ST'' 1 ''Flat'' 1 1 (Some G41_50)
       \<notin> set (filter_rows (all_selected\<lparr>ecg := ''Normal'', ang := True, sex := ''Male''\<rparr>) example_df)"
  using
    filter_rows_five_predicates [of "all_selected\<lparr>ecg := ''Normal'', ang := True, sex := ''Male''\<rparr>"
      example_df "mk_row 62 1 ''ASY'' ''Normal'' 1 ''Flat'' 0 1 (Some G61_70)"]
    filter_rows_five_predicates [of "all_selected\<lparr>ecg := ''Normal'', ang := True, sex := ''Male''\<rparr>"
      example_df "mk_row 47 0 ''ASY'' ''ST'' 1 ''Flat'' 1 1 (Some G41_50)"]
  by (simp add: all_selected_def example_df_def labels_def categories_def)

text \<open>
  C9. Filtering the filtered table again with the same selections changes nothing.
\<close>

theorem filter_rows_idempotent:
  "filter_rows c (filter_rows c t) = filter_rows c t"
  by (simp add: filter_rows_eq_filter)

theorem filter_rows_idempotent_witness:
  "filter_rows (all_selected\<lparr>sex := ''Female''\<rparr>)
     (filter_rows (all_selected\<lparr>sex := ''Female''\<rparr>) example_df)
   = filter_rows (all_selected\<lparr>sex := ''Female''\<rparr>) example_df"
  using filter_rows_idempotent [of "all_selected\<lparr>sex := ''Female''\<rparr>" example_df]
  by simp

text \<open>
  C10. A record younger than 30 gets no age group when the table is loaded, and no
  selection of age groups, the selection of all five included, lets it into the filtered
  table.
\<close>

theorem age_below_30_excluded:
  assumes "load_data raw = Inr df" and "r \<in> set df" and "age r < 30"
  shows "Age_Group r = None \<and> r \<notin> set (filter_rows c df)"
proof -
  have "Age_Group r = None"
    using load_data_row [OF assms(1,2)] assms(3) by (simp add: cut1_edges)
  moreover from this have "\<not> age_group_isin (ag c) r"
    by (simp add: age_group_isin_def)
  ultimately show ?thesis
    by (simp add: filter_rows_eq_filter)
qed

theorem age_below_30_excluded_witness:
  "load_data example_csv = Inr example_df
   \<and> mk_row 28 1 ''ATA'' ''Normal'' 0 ''Up'' 0 0 None \<in> set example_df
   \<and> age (mk_row 28 1 ''ATA'' ''Normal'' 0 ''Up'' 0 0 None) < 30
   \<and> Age_Group (mk_row 28 1 ''ATA'' ''Normal'' 0 ''Up'' 0 0 None) = None
   \<and> mk_row 28 1 ''ATA'' ''Normal'' 0 ''Up'' 0 0 None \<notin> set (filter_rows all_selected example_df)"
proof -
  have in_df: "mk_row 28 1 ''ATA'' ''Normal'' 0 ''Up'' 0 0 None \<in> set example_df"
    by (simp add: example_df_def)
  have young: "age (mk_row 28 1 ''ATA'' ''Normal'' 0 ''Up'' 0 0 None) < 30"
    by simp
  from age_below_30_excluded [OF example_loads in_df young, of all_selected] example_loads in_df young
  show ?thesis by simp
qed

text \<open>
  C4, as the loader has it. When the table loads, every record of age 30 or more gets
  exactly one age group, the one whose bin among \<open>[30,40]\<close>, \<open>[41,50]\<close>, \<open>[51,60]\<close>,
  \<open>[61,70]\<close>, \<open>[71, max]\<close> holds its age, and no other bin holds that age; a record of age
  45 gets the group labelled \<^verbatim>\<open>41-50\<close>; and records of the same age get the same group.
  (A record younger than 30 gets none: see C10.)
\<close>

theorem age_group_partition:
  assumes "load_data raw = Inr df" and "r \<in> set df" and "30 \<le> age r"
  shows "\<exists>g. Age_Group r = Some g
           \<and> (\<forall>g'. in_spec_bin (Max (set (map age raw))) g' (age r) \<longleftrightarrow> g' = g)
           \<and> (age r = 45 \<longrightarrow> g = G41_50 \<and> label_of g = ''41-50'')
           \<and> (\<forall>r'\<in>set df. age r' = age r \<longrightarrow> Age_Group r' = Some g)"
proof -
  let ?m = "Max (set (map age raw))"
  note R = load_data_row [OF assms(1,2)]
  have "\<forall>g'. in_spec_bin ?m g' (age r) \<longleftrightarrow> Some g' = cut1 [29, 40, 50, 60, 70, ?m] (age r)"
  proof
    fix g' show "in_spec_bin ?m g' (age r) \<longleftrightarrow> Some g' = cut1 [29, 40, 50, 60, 70, ?m] (age r)"
      using R(1,2) assms(3) by (cases g') (auto simp: in_spec_bin_def cut1_edges)
  qed
  then have bins: "\<And>g'. in_spec_bin ?m g' (age r) \<longleftrightarrow> Some g' = Age_Group r"
    using R(3) by simp
  have "Age_Group r \<noteq> None"
    using R assms(3) by (simp add: cut1_edges)
  then obtain g where g: "Age_Group r = Some g" by auto
  have "age r = 45 \<Longrightarrow> g = G41_50"
    using R(1,3) g by (simp add: cut1_edges)
  moreover have "\<forall>r'\<in>set df. age r' = age r \<longrightarrow> Age_Group r' = Some g"
    using load_data_row(3) [OF assms(1)] R(3) g by simp
  ultimately show ?thesis using g bins by auto
qed

theorem age_group_partition_witness:
  "load_data example_csv = Inr example_df
   \<and> mk_row 45 1 ''ATA'' ''Normal'' 0 ''Up'' 0 0 (Some G41_50) \<in> set example_df
   \<and> Age_Group (mk_row 45 1 ''ATA'' ''Normal'' 0 ''Up'' 0 0 (Some G41_50)) = Some G41_50
   \<and> label_of G41_50 = ''41-50''
   \<and> in_spec_bin 77 G41_50 45 \<and> \<not> in_spec_bin 77 G30_40 45 \<and> \<not> in_spec_bin 77 G51_60 45"
proof -
  have in_df: "mk_row 45 1 ''ATA'' ''Normal'' 0 ''Up'' 0 0 (Some G41_50) \<in> set example_df"
    by (simp add: example_df_def)
  have old: "30 \<le> age (mk_row 45 1 ''ATA'' ''Normal'' 0 ''Up'' 0 0 (Some G41_50))"
    by simp
  from age_group_partition [OF example_loads in_df old] example_loads in_df
  show ?thesis by (simp add: in_spec_bin_def)
qed

text \<open>
  The claim as it is worded, every record in one of the five bins, fails on a table with
  a record of age 28: the table loads and that record has no age group.
\<close>

theorem age_group_every_record_counterexample:
  "load_data example_csv = Inr example_df
   \<and> age (example_df ! 0) = 28 \<and> Age_Group (example_df ! 0) = None
   \<and> \<not> in_spec_bin 77 G30_40 28 \<and> \<not> in_spec_bin 77 G41_50 28 \<and> \<not> in_spec_bin 77 G51_60 28
   \<and> \<not> in_spec_bin 77 G61_70 28 \<and> \<not> in_spec_bin 77 G71_plus 28"
  using example_loads by (simp add: example_df_def in_spec_bin_def)

text \<open>The example table, filtered.\<close>

lemma example_filtered: "filter_rows all_selected example_df = example_d"
  by (simp add: filter_rows_def all_selected_def example_df_def example_d_def
      age_group_isin_def labels_def categories_def)



section \<open>The aggregations: properties\<close>

subsection \<open>Group keys and means\<close>

lemma distinct_uniques [simp]: "distinct (uniques xs)"
  by (simp add: uniques_def)

lemma set_uniques [simp]: "set (uniques xs) = set xs"
  by (simp add: uniques_def)

lemma age_group_in_categories [simp]: "g \<in> set categories"
  by (cases g) (simp_all add: categories_def)

lemma distinct_categories [simp]: "distinct categories"
  by (simp add: categories_def)

lemma distinct_group_keys: "distinct (group_keys observed col d)"
  by (simp add: group_keys_def distinct_product)

lemma group_keys_iff:
  "k \<in> set (group_keys observed col d) \<longleftrightarrow>
     snd k \<in> set (map col d) \<and> (observed \<longrightarrow> rows_of col d k \<noteq> [])"
  by (cases k) (auto simp: group_keys_def)

lemma rows_of_nonempty_key:
  "rows_of col d k \<noteq> [] \<Longrightarrow> k \<in> set (group_keys observed col d)"
proof -
  assume "rows_of col d k \<noteq> []"
  then obtain r where "r \<in> set (rows_of col d k)" by (cases "rows_of col d k") auto
  then have "r \<in> set d" "col r = snd k" by (auto simp: rows_of_def)
  then have "snd k \<in> set (map col d)" by force
  with \<open>rows_of col d k \<noteq> []\<close> show ?thesis by (simp add: group_keys_iff)
qed

lemma sum_list_binary_bounds:
  assumes "\<forall>x\<in>set xs. x = 0 \<or> x = (1::int)"
  shows "0 \<le> sum_list xs \<and> sum_list xs \<le> int (length xs)"
  using assms by (induction xs) auto

lemma mean_binary:
  assumes "\<forall>x\<in>set xs. x = 0 \<or> x = (1::int)" and "xs \<noteq> []"
  shows "\<exists>x. mean xs = Num x \<and> 0 \<le> x \<and> x \<le> 1"
proof -
  from sum_list_binary_bounds [OF assms(1)]
  have b: "0 \<le> sum_list xs" "sum_list xs \<le> int (length xs)" by simp_all
  from assms(2) have pos: "0 < real (length xs)" by simp
  have "0 \<le> real_of_int (sum_list xs) / real (length xs)"
    using b(1) by simp
  moreover have "real_of_int (sum_list xs) / real (length xs) \<le> 1"
  proof -
    from b(2) have "real_of_int (sum_list xs) \<le> real (length xs)"
      by (metis of_int_le_iff of_int_of_nat_eq)
    with pos show ?thesis by simp
  qed
  ultimately show ?thesis using assms(2) by (simp add: mean_def)
qed

lemma example_binary: "\<forall>r\<in>set example_d. heart_disease r = 0 \<or> heart_disease r = 1"
  by (simp add: example_d_def)

lemma example_rt:
  "rt example_d = [(''LVH'', Num 100), (''Normal'', Num 50), (''ST'', Num 100)]"
  by (simp add: rt_def example_d_def uniques_def mean_def)

lemma example_ln_observed:
  "ln_rate True example_d =
     [(G41_50, ''ASY'', Num 1), (G41_50, ''ATA'', Num 0), (G61_70, ''ASY'', Num 1),
      (G71_plus, ''NAP'', Num 1)]"
  by (simp add: ln_rate_def group_keys_def rows_of_def example_d_def uniques_def mean_def
      categories_def)

lemma example_ln_unobserved:
  "(G30_40, ''ASY'', NaN) \<in> set (ln_rate False example_d)"
  by (simp add: ln_rate_def group_keys_def rows_of_def example_d_def uniques_def mean_def
      categories_def)

text \<open>
  C7, as the aggregations have it. With a binary outcome, every rate of \<^verbatim>\<open>rt\<close> is a
  number between 0 and 100, and every rate of \<^verbatim>\<open>ln\<close> for a pair of age group and
  chest-pain type that has rows is a number between 0 and 1. A pair without rows is
  listed only when the library groups unobserved categories, and its rate is then
  \<^verbatim>\<open>NaN\<close>.
\<close>

theorem rates_within_bounds:
  assumes "\<forall>r\<in>set d. heart_disease r = 0 \<or> heart_disease r = 1"
  shows "(\<forall>v rate. (v, rate) \<in> set (rt d) \<longrightarrow> (\<exists>x. rate = Num x \<and> 0 \<le> x \<and> x \<le> 100))
       \<and> (\<forall>g c rate. (g, c, rate) \<in> set (ln_rate observed d) \<longrightarrow>
            (if rows_of chest_pain_type d (g, c) = [] then rate = NaN \<and> \<not> observed
             else \<exists>x. rate = Num x \<and> 0 \<le> x \<and> x \<le> 1))"
proof (intro conjI allI impI)
  fix v rate assume "(v, rate) \<in> set (rt d)"
  then have v: "v \<in> set (map resting_ecg d)"
    and rate: "rate = scale 100 (mean (map heart_disease (filter (\<lambda>r. resting_ecg r = v) d)))"
    by (auto simp: rt_def)
  let ?xs = "map heart_disease (filter (\<lambda>r. resting_ecg r = v) d)"
  from v have "?xs \<noteq> []" by (auto simp: filter_empty_conv)
  moreover from assms have "\<forall>x\<in>set ?xs. x = 0 \<or> x = 1" by auto
  ultimately obtain x where "mean ?xs = Num x" "0 \<le> x" "x \<le> 1"
    using mean_binary by blast
  with rate show "\<exists>x. rate = Num x \<and> 0 \<le> x \<and> x \<le> 100" by simp
next
  fix g c rate assume "(g, c, rate) \<in> set (ln_rate observed d)"
  then have k: "(g, c) \<in> set (group_keys observed chest_pain_type d)"
    and rate: "rate = mean (map heart_disease (rows_of chest_pain_type d (g, c)))"
    by (auto simp: ln_rate_def)
  let ?rs = "rows_of chest_pain_type d (g, c)"
  show "if ?rs = [] then rate = NaN \<and> \<not> observed
        else \<exists>x. rate = Num x \<and> 0 \<le> x \<and> x \<le> 1"
  proof (cases "?rs = []")
    case True
    with k have "\<not> observed" by (simp add: group_keys_iff)
    with True rate show ?thesis by (simp add: mean_def)
  next
    case False
    have "\<forall>x\<in>set (map heart_disease ?rs). x = 0 \<or> x = 1"
      using assms by (auto simp: rows_of_def)
    with False rate show ?thesis using mean_binary [of "map heart_disease ?rs"] by simp
  qed
qed


theorem rates_within_bounds_witness:
  "map heart_disease example_d = [0, 1, 1, 1]
   \<and> rt example_d = [(''LVH'', Num 100), (''Normal'', Num 50), (''ST'', Num 100)]
   \<and> ln_rate True example_d =
       [(G41_50, ''ASY'', Num 1), (G41_50, ''ATA'', Num 0), (G61_70, ''ASY'', Num 1),
        (G71_plus, ''NAP'', Num 1)]
   \<and> rows_of chest_pain_type example_d (G41_50, ''ATA'') \<noteq> []"
  using rates_within_bounds [OF example_binary, of True] example_rt example_ln_observed
  by (simp add: example_d_def rows_of_def)

text \<open>
  The claim as it is worded, every rate of the sixth aggregation in \<open>[0,1]\<close>, fails on
  a non-empty filtered table when the library groups unobserved categories: the pair of
  the age group 30-40 and the chest-pain type ASY has no row, is listed all the same, and
  its rate is \<^verbatim>\<open>NaN\<close>.
\<close>

theorem rates_every_value_counterexample:
  "filter_rows all_selected example_df = example_d
   \<and> example_d \<noteq> []
   \<and> map heart_disease example_d = [0, 1, 1, 1]
   \<and> (G30_40, ''ASY'', NaN) \<in> set (ln_rate False example_d)"
  using example_filtered example_ln_unobserved by (simp add: example_d_def)

subsection \<open>Chest pain shares\<close>














subsection \<open>The heat map\<close>

lemma position_less: "x \<in> set xs \<Longrightarrow> position x xs < length xs"
  by (induction xs) auto

lemma nth_position: "x \<in> set xs \<Longrightarrow> xs ! position x xs = x"
  by (induction xs) auto

lemma heat_long_keys:
  "map (\<lambda>e. (fst e, fst (snd e))) (heat_long observed d) = group_keys observed st_slope d"
  by (simp add: heat_long_def o_def)

lemma heat_long_lookup:
  "map_of (map (\<lambda>e. ((fst e, fst (snd e)), snd (snd e))) (heat_long observed d)) k =
     (if k \<in> set (group_keys observed st_slope d)
      then Some (mean (map heart_disease (rows_of st_slope d k))) else None)"
proof -
  have "map (\<lambda>e. ((fst e, fst (snd e)), snd (snd e))) (heat_long observed d) =
      map (\<lambda>k. (k, mean (map heart_disease (rows_of st_slope d k)))) (group_keys observed st_slope d)"
    by (simp add: heat_long_def o_def)
  then show ?thesis
    by (simp add: map_of_map_restrict restrict_map_def)
qed

lemma cell_times100_pivot:
  assumes "pivot t = Inr p"
  shows "cell (times100 p) g s =
     (if g \<in> fst ` set t \<and> s \<in> (\<lambda>e. fst (snd e)) ` set t
      then Some (scale 100 (case map_of (map (\<lambda>e. ((fst e, fst (snd e)), snd (snd e))) t) (g, s) of
                              None \<Rightarrow> NaN | Some v \<Rightarrow> v))
      else None)"
proof -
  let ?idx = "filter (\<lambda>g. g \<in> set (map fst t)) categories"
  let ?cls = "uniques (map (\<lambda>e. fst (snd e)) t)"
  let ?look = "map_of (map (\<lambda>e. ((fst e, fst (snd e)), snd (snd e))) t)"
  from assms have p: "p = \<lparr>pt_index = ?idx, pt_columns = ?cls,
      pt_values = map (\<lambda>g. map (\<lambda>s. case ?look (g, s) of None \<Rightarrow> NaN | Some v \<Rightarrow> v) ?cls) ?idx\<rparr>"
    by (auto simp: pivot_def Let_def split: if_splits)
  have idx: "g \<in> set ?idx \<longleftrightarrow> g \<in> fst ` set t" by simp
  have cls: "s \<in> set ?cls \<longleftrightarrow> s \<in> (\<lambda>e. fst (snd e)) ` set t" by simp
  show ?thesis
  proof (cases "g \<in> set ?idx \<and> s \<in> set ?cls")
    case True
    then have "position g ?idx < length ?idx" "position s ?cls < length ?cls"
      "?idx ! position g ?idx = g" "?cls ! position s ?cls = s"
      by (simp_all only: position_less nth_position)
    with True show ?thesis
      unfolding cell_def times100_def p by simp
  next
    case False
    then show ?thesis
      unfolding cell_def times100_def p by auto
  qed
qed

lemma example_heat:
  "heat True example_d =
     Inr \<lparr>pt_index = [G41_50, G61_70, G71_plus], pt_columns = [''Down'', ''Flat'', ''Up''],
          pt_values = [[NaN, Num 100, Num 0], [NaN, Num 100, NaN], [Num 100, NaN, NaN]]\<rparr>"
  by (simp add: heat_def pivot_def times100_def heat_long_def group_keys_def rows_of_def
      example_d_def uniques_def mean_def categories_def)


text \<open>
  C6. The heat map is a table with age groups as row labels and ST slopes as column
  labels, it is built without an error, and its cell at \<open>(g, s)\<close> is 100 times the mean
  outcome of the rows with age group \<open>g\<close> and slope \<open>s\<close> when there are such rows;
  when there are none, the cell is absent or \<^verbatim>\<open>NaN\<close>, never a number.
\<close>

theorem heat_cells:
  "\<exists>t. heat observed d = Inr t
      \<and> set (pt_columns t) \<subseteq> set (map st_slope d)
      \<and> (\<forall>g s. if rows_of st_slope d (g, s) = []
               then cell t g s = None \<or> cell t g s = Some NaN
               else cell t g s =
                      Some (Num (real_of_int (sum_list (map heart_disease (rows_of st_slope d (g, s))))
                                 / real (length (rows_of st_slope d (g, s))) * 100)))"
proof -
  have "distinct (map (\<lambda>e. (fst e, fst (snd e))) (heat_long observed d))"
    by (simp only: heat_long_keys distinct_group_keys)
  then obtain p where p: "pivot (heat_long observed d) = Inr p"
    by (auto simp: pivot_def Let_def)
  then have h: "heat observed d = Inr (times100 p)"
    by (simp add: heat_def)
  have cols: "set (pt_columns (times100 p)) \<subseteq> set (map st_slope d)"
    using p by (auto simp: pivot_def Let_def times100_def heat_long_def group_keys_iff split: if_splits)
  have keys: "\<And>g s. (g \<in> fst ` set (heat_long observed d)
                        \<and> s \<in> (\<lambda>e. fst (snd e)) ` set (heat_long observed d))
                     \<or> (g, s) \<notin> set (group_keys observed st_slope d)"
    by (force simp: heat_long_def)
  have "\<And>g s. if rows_of st_slope d (g, s) = []
               then cell (times100 p) g s = None \<or> cell (times100 p) g s = Some NaN
               else cell (times100 p) g s =
                      Some (Num (real_of_int (sum_list (map heart_disease (rows_of st_slope d (g, s))))
                                 / real (length (rows_of st_slope d (g, s))) * 100))"
  proof -
    fix g s
    let ?rs = "rows_of st_slope d (g, s)"
    show "if ?rs = [] then cell (times100 p) g s = None \<or> cell (times100 p) g s = Some NaN
          else cell (times100 p) g s =
                 Some (Num (real_of_int (sum_list (map heart_disease ?rs)) / real (length ?rs) * 100))"
    proof (cases "?rs = []")
      case True
      then show ?thesis
        by (auto simp: cell_times100_pivot [OF p] heat_long_lookup mean_def)
    next
      case False
      then have k: "(g, s) \<in> set (group_keys observed st_slope d)"
        by (rule rows_of_nonempty_key)
      with keys [of g s] have "g \<in> fst ` set (heat_long observed d)"
        "s \<in> (\<lambda>e. fst (snd e)) ` set (heat_long observed d)" by auto
      with False k show ?thesis
        by (simp add: cell_times100_pivot [OF p] heat_long_lookup mean_def)
    qed
  qed
  with h cols show ?thesis by blast
qed
theorem heat_cells_witness:
  "heat True example_d =
     Inr \<lparr>pt_index = [G41_50, G61_70, G71_plus], pt_columns = [''Down'', ''Flat'', ''Up''],
          pt_values = [[NaN, Num 100, Num 0], [NaN, Num 100, NaN], [Num 100, NaN, NaN]]\<rparr>
   \<and> rows_of st_slope example_d (G61_70, ''Up'') = []
   \<and> cell \<lparr>pt_index = [G41_50, G61_70, G71_plus], pt_columns = [''Down'', ''Flat'', ''Up''],
          pt_values = [[NaN, Num 100, Num 0], [NaN, Num 100, NaN], [Num 100, NaN, NaN]]\<rparr>
        G61_70 ''Up'' = Some NaN
   \<and> rows_of st_slope example_d (G41_50, ''Up'') =
        [mk_row 45 1 ''ATA'' ''Normal'' 0 ''Up'' 0 0 (Some G41_50)]
   \<and> cell \<lparr>pt_index = [G41_50, G61_70, G71_plus], pt_columns = [''Down'', ''Flat'', ''Up''],
          pt_values = [[NaN, Num 100, Num 0], [NaN, Num 100, NaN], [Num 100, NaN, NaN]]\<rparr>
        G41_50 ''Up'' = Some (Num 0)
   \<and> cell \<lparr>pt_index = [G41_50, G61_70, G71_plus], pt_columns = [''Down'', ''Flat'', ''Up''],
          pt_values = [[NaN, Num 100, Num 0], [NaN, Num 100, NaN], [Num 100, NaN, NaN]]\<rparr>
        G30_40 ''Up'' = None"
  using heat_cells [of True example_d] example_heat
  by (simp add: cell_def rows_of_def example_d_def)

subsection \<open>Correlations\<close>




















subsection \<open>The empty table\<close>

text \<open>
  C3. An empty chest-pain selection leaves no row, and on a table without rows the six
  aggregations return without an error: five return an empty table, and the fifth the
  single vector of six \<^verbatim>\<open>NaN\<close> entries.
\<close>

theorem empty_table_aggregations:
  "(cp c = [] \<longrightarrow> filter_rows c df = [])
   \<and> mos observed [] = []
   \<and> df_e [] = []
   \<and> heat observed [] = Inr \<lparr>pt_index = [], pt_columns = [], pt_values = []\<rparr>
   \<and> df4 [] = []
   \<and> fig5 [] = One_Bar [(''age'', NaN), (''resting_bp'', NaN), (''cholesterol'', NaN),
                         (''max_hr'', NaN), (''oldpeak'', NaN), (''fasting_bs'', NaN)]
   \<and> ln_rate observed [] = []"
proof (intro conjI impI)
  assume "cp c = []"
  then show "filter_rows c df = []"
    by (simp add: filter_rows_def Let_def)
next
  show "mos observed [] = []"
    by (simp add: mos_def mos_count_def group_keys_def uniques_def categories_def)
next
  show "df_e [] = []"
    by (simp add: df_e_def ct_def value_counts_def)
next
  show "heat observed [] = Inr \<lparr>pt_index = [], pt_columns = [], pt_values = []\<rparr>"
    by (simp add: heat_def heat_long_def group_keys_def uniques_def categories_def pivot_def times100_def)
next
  show "df4 [] = []"
    by (simp add: df4_def uniques_def)
next
  show "fig5 [] = One_Bar [(''age'', NaN), (''resting_bp'', NaN), (''cholesterol'', NaN),
                         (''max_hr'', NaN), (''oldpeak'', NaN), (''fasting_bs'', NaN)]"
    by (simp add: fig5_def nunique_def corr_abs_def cols_def pearson_def)
next
  show "ln_rate observed [] = []"
    by (simp add: ln_rate_def group_keys_def uniques_def categories_def)
qed

theorem empty_table_aggregations_witness:
  "cp (all_selected\<lparr>cp := []\<rparr>) = []
   \<and> filter_rows (all_selected\<lparr>cp := []\<rparr>) example_df = []
   \<and> mos True (filter_rows (all_selected\<lparr>cp := []\<rparr>) example_df) = []
   \<and> df_e (filter_rows (all_selected\<lparr>cp := []\<rparr>) example_df) = []
   \<and> heat True (filter_rows (all_selected\<lparr>cp := []\<rparr>) example_df) =
       Inr \<lparr>pt_index = [], pt_columns = [], pt_values = []\<rparr>
   \<and> df4 (filter_rows (all_selected\<lparr>cp := []\<rparr>) example_df) = []
   \<and> vectors (fig5 (filter_rows (all_selected\<lparr>cp := []\<rparr>) example_df)) =
       [[(''age'', NaN), (''resting_bp'', NaN), (''cholesterol'', NaN),
         (''max_hr'', NaN), (''oldpeak'', NaN), (''fasting_bs'', NaN)]]
   \<and> ln_rate True (filter_rows (all_selected\<lparr>cp := []\<rparr>) example_df) = []"
  using empty_table_aggregations [of "all_selected\<lparr>cp := []\<rparr>" example_df True]
  by simp

end
